theory Spec2Isabelle
  imports Complex_Main
begin

section \<open>The sitemap generator of tanstack-router-sitemap\<close>

text \<open>
  A shallow embedding of \<^verbatim>\<open>src/generator.ts\<close> (class
  \<^verbatim>\<open>TanStackRouterSitemapGenerator\<close>) and of the two wrappers of
  \<^verbatim>\<open>src/sitemap-generator.ts\<close>.

  Conventions of the embedding:
  \<^item> a JavaScript string is a \<open>string\<close>; a character stands for a UTF-16 code unit
    below 256;
  \<^item> an optional property of an object is an \<open>option\<close>: \<open>None\<close> is
    \<^verbatim>\<open>undefined\<close>;
  \<^item> a thrown exception is \<open>Inl\<close> of an \<open>error\<close>, a normal return is \<open>Inr\<close>;
  \<^item> \<^verbatim>\<open>console.warn\<close> appends to a log that the functions return;
  \<^item> the wall clock read by the constructor and the environment read by the
    manual-routes provider are explicit arguments.
\<close>

subsection \<open>String primitives of JavaScript\<close>

text \<open>\<^verbatim>\<open>s.startsWith(p)\<close>, \<^verbatim>\<open>s.endsWith(p)\<close>, and \<^verbatim>\<open>s.includes(c)\<close> for a
  one-character needle (the only use in the source).\<close>

definition startsWith :: "string \<Rightarrow> string \<Rightarrow> bool" where
  "startsWith s p = (take (length p) s = p)"

definition endsWith :: "string \<Rightarrow> string \<Rightarrow> bool" where
  "endsWith s p = (length p \<le> length s \<and> drop (length s - length p) s = p)"

definition includes_char :: "string \<Rightarrow> char \<Rightarrow> bool" where
  "includes_char s c = (c \<in> set s)"

text \<open>\<^verbatim>\<open>s.replace(/c/g, rep)\<close>: every occurrence of the character \<open>c\<close> is replaced.\<close>

definition replaceAll :: "char \<Rightarrow> string \<Rightarrow> string \<Rightarrow> string" where
  "replaceAll c rep s = concat (map (\<lambda>x. if x = c then rep else [x]) s)"

text \<open>\<^verbatim>\<open>s.replace(/c+/g, rep)\<close>: every maximal run of the character \<open>c\<close> is replaced
  by one copy of \<open>rep\<close>.\<close>

function replaceRuns :: "char \<Rightarrow> string \<Rightarrow> string \<Rightarrow> string" where
  "replaceRuns c rep [] = []"
| "replaceRuns c rep (x # xs) =
     (if x = c then rep @ replaceRuns c rep (dropWhile (\<lambda>y. y = c) xs)
      else x # replaceRuns c rep xs)"
  by pat_completeness auto
termination
  by (relation "measure (\<lambda>(c, rep, s). length s)")
     (auto simp: le_imp_less_Suc length_dropWhile_le)

text \<open>\<^verbatim>\<open>s.replace(/\/$/, '')\<close>: one trailing slash is removed (without the
  multiline flag \<^verbatim>\<open>$\<close> is the end of the input).\<close>

definition stripTrailingSlash :: "string \<Rightarrow> string" where
  "stripTrailingSlash s = (if s \<noteq> [] \<and> last s = CHR ''/'' then butlast s else s)"

text \<open>\<^verbatim>\<open>s.trim()\<close>: white space and line terminators are removed at both ends
  (of the code units below 256: TAB, LF, VT, FF, CR, SP, NBSP).\<close>

definition isWhiteSpace :: "char \<Rightarrow> bool" where
  "isWhiteSpace c = (c \<in> {CHR 0x09, CHR 0x0A, CHR 0x0B, CHR 0x0C, CHR 0x0D, CHR 0x20, CHR 0xA0})"

definition trim :: "string \<Rightarrow> string" where
  "trim s = rev (dropWhile isWhiteSpace (rev (dropWhile isWhiteSpace s)))"

text \<open>\<^verbatim>\<open>s.slice(0, -2)\<close>.\<close>

definition slice_0_m2 :: "string \<Rightarrow> string" where
  "slice_0_m2 s = take (length s - 2) s"

subsection \<open>Numbers\<close>

text \<open>
  A JavaScript number is a double. The generator performs no arithmetic on numbers: it
  tests them for truthiness, compares them with \<^verbatim>\<open>undefined\<close> and prints them with
  \<^verbatim>\<open>toFixed(1)\<close>. A finite double is modelled by its exact rational value (\<open>+0\<close> and
  \<open>-0\<close> are both \<open>Finite 0\<close>: they are both falsy and both print as \<^verbatim>\<open>0.0\<close>).
\<close>

datatype number = Finite rat | NaN | PosInfinity | NegInfinity

fun truthy_number :: "number \<Rightarrow> bool" where
  "truthy_number (Finite x) = (x \<noteq> 0)"
| "truthy_number NaN = False"
| "truthy_number PosInfinity = True"
| "truthy_number NegInfinity = True"

text \<open>The decimal digits of a natural number.\<close>

definition digit :: "nat \<Rightarrow> char" where
  "digit d = ''0123456789'' ! d"

function digits10 :: "nat \<Rightarrow> string" where
  "digits10 n = (if n < 10 then [digit n] else digits10 (n div 10) @ [digit (n mod 10)])"
  by pat_completeness auto
termination
  by (relation "measure id") auto

declare digits10.simps [simp del]

text \<open>
  \<^verbatim>\<open>x.toFixed(1)\<close>, after ECMAScript's Number.prototype.toFixed with one fraction
  digit: a value that is not finite prints as its name; otherwise the sign is split off,
  \<open>n\<close> is the integer for which \<open>n / 10\<close> is nearest to the magnitude (the larger one
  of two), and the digits of \<open>n\<close> are printed with a point before the last one.
  For magnitudes of \<open>10^21\<close> and above ECMAScript prints the number in exponent
  notation instead, which needs the binary representation of the double; the model follows
  the digit algorithm there too, and every statement below about \<open>toFixed1\<close> is
  restricted to magnitudes below \<open>10^21\<close>.
\<close>

definition toFixed1_nat :: "nat \<Rightarrow> string" where
  "toFixed1_nat n = digits10 (n div 10) @ ''.'' @ [digit (n mod 10)]"

fun toFixed1 :: "number \<Rightarrow> string" where
  "toFixed1 NaN = ''NaN''"
| "toFixed1 PosInfinity = ''Infinity''"
| "toFixed1 NegInfinity = ''-Infinity''"
| "toFixed1 (Finite x) =
     (if x < 0 then ''-'' else '''') @ toFixed1_nat (nat \<lfloor>\<bar>x\<bar> * 10 + 1 / 2\<rfloor>)"

subsection \<open>The data model (types.ts)\<close>

datatype changefreq = Always | Hourly | Daily | Weekly | Monthly | Yearly | Never

text \<open>The string that a \<open>changefreq\<close> value is at run time.\<close>

fun changefreq_string :: "changefreq \<Rightarrow> string" where
  "changefreq_string Always = ''always''"
| "changefreq_string Hourly = ''hourly''"
| "changefreq_string Daily = ''daily''"
| "changefreq_string Weekly = ''weekly''"
| "changefreq_string Monthly = ''monthly''"
| "changefreq_string Yearly = ''yearly''"
| "changefreq_string Never = ''never''"

text \<open>\<^verbatim>\<open>SitemapEntry\<close>.\<close>

record SitemapEntry =
  url :: string
  lastmod :: "string option"
  changefreq :: "changefreq option"
  priority :: "number option"

text \<open>\<^verbatim>\<open>Partial<SitemapEntry>\<close>, the type of a \<^verbatim>\<open>routeOptions\<close> value.\<close>

record PartialSitemapEntry =
  p_url :: "string option"
  p_lastmod :: "string option"
  p_changefreq :: "changefreq option"
  p_priority :: "number option"

definition emptyPartial :: PartialSitemapEntry where
  "emptyPartial = \<lparr>p_url = None, p_lastmod = None, p_changefreq = None, p_priority = None\<rparr>"

text \<open>\<^verbatim>\<open>RouteInfo\<close> (its \<^verbatim>\<open>children\<close> field is never set or read by the generator).\<close>

record RouteInfo =
  path :: string
  includedInSitemap :: bool
  sitemapOptions :: PartialSitemapEntry

text \<open>\<^verbatim>\<open>TanStackRoute\<close>: only \<^verbatim>\<open>path\<close> and \<^verbatim>\<open>children\<close> are read; absent
  children are the empty list. A route is an object: the test \<^verbatim>\<open>if (!route)\<close> of
  \<^verbatim>\<open>extractRoutesFromTree\<close> never fires on a value of this type.\<close>

datatype TanStackRoute =
  TanStackRoute (route_path: "string option") (children: "TanStackRoute list")

text \<open>A \<^verbatim>\<open>Date\<close> object, as far as \<^verbatim>\<open>toISOString\<close> sees it: a valid date has an
  ISO string, an invalid one makes \<^verbatim>\<open>toISOString\<close> throw a RangeError.\<close>

datatype jsdate = ValidDate string | InvalidDate

datatype lastMod_value = LastModString string | LastModDate jsdate

text \<open>\<^verbatim>\<open>ManualSitemapEntry\<close> (\<open>m_priority\<close> is its \<^verbatim>\<open>priority\<close>).\<close>

record ManualSitemapEntry =
  location :: string
  m_priority :: "number option"
  lastMod :: "lastMod_value option"
  changeFrequency :: "changefreq option"

text \<open>The exceptions: the constructor's Error, a TypeError (a method called on
  \<^verbatim>\<open>undefined\<close>), the RangeError of \<^verbatim>\<open>toISOString\<close>, whatever the manual-routes
  provider throws or rejects with, and \<open>RegExpNotModelled\<close> (see below).\<close>

datatype error = ConfigError | TypeError | RangeError | ProviderFailure | RegExpNotModelled

text \<open>What one call of the manual-routes provider does: it returns an array, returns a
  promise that is fulfilled with an array, throws, or returns a promise that is
  rejected.\<close>

datatype provider_outcome =
  Returned "ManualSitemapEntry list"
| Fulfilled "ManualSitemapEntry list"
| Thrown
| Rejected

text \<open>
  \<^verbatim>\<open>SitemapOptions\<close>, the argument of the constructor. A key of the object literal
  is absent, present with the value \<^verbatim>\<open>undefined\<close>, or present with a value: the
  spread in the constructor tells the first two apart. (\<open>lastmod_opt\<close> is the key
  \<^verbatim>\<open>lastmod\<close>.) The provider reads an environment of type \<open>'w\<close>; a provider whose
  promise never settles is not modelled.
\<close>

datatype 'a field = Absent | Undefined | Value 'a

record 'w SitemapOptions =
  baseUrl :: string
  defaultChangefreq :: "changefreq field"
  defaultPriority :: "number field"
  excludeRoutes :: "string list field"
  routeOptions :: "(string \<rightharpoonup> PartialSitemapEntry) field"
  trailingSlash :: "bool field"
  lastmod_opt :: "string field"
  prettyPrint :: "bool field"
  manualRoutes :: "('w \<Rightarrow> provider_outcome) field"

text \<open>\<^verbatim>\<open>this.options\<close>, the options after the constructor has merged the defaults.\<close>

record 'w generator =
  o_baseUrl :: string
  o_defaultChangefreq :: "changefreq option"
  o_defaultPriority :: "number option"
  o_excludeRoutes :: "string list option"
  o_routeOptions :: "(string \<rightharpoonup> PartialSitemapEntry) option"
  o_trailingSlash :: "bool option"
  o_lastmod :: "string option"
  o_prettyPrint :: "bool option"
  o_manualRoutes :: "('w \<Rightarrow> provider_outcome) option"

subsection \<open>The constructor\<close>

text \<open>One key of \<^verbatim>\<open>{ key: d, ...options }\<close>: a key that \<^verbatim>\<open>options\<close> has wins, also
  when its value is \<^verbatim>\<open>undefined\<close>.\<close>

fun spread :: "'a \<Rightarrow> 'a field \<Rightarrow> 'a option" where
  "spread d Absent = Some d"
| "spread d Undefined = None"
| "spread d (Value v) = Some v"

fun spread_nodefault :: "'a field \<Rightarrow> 'a option" where
  "spread_nodefault (Value v) = Some v"
| "spread_nodefault _ = None"

text \<open>\<open>now\<close> is \<^verbatim>\<open>new Date().toISOString()\<close> at construction time.\<close>

definition constructor :: "string \<Rightarrow> 'w SitemapOptions \<Rightarrow> error + 'w generator" where
  "constructor now options =
     (if baseUrl options = [] \<or> trim (baseUrl options) = [] then Inl ConfigError
      else Inr \<lparr>
        o_baseUrl = baseUrl options,
        o_defaultChangefreq = spread Weekly (defaultChangefreq options),
        o_defaultPriority = spread (Finite (1 / 2)) (defaultPriority options),
        o_excludeRoutes = spread [] (excludeRoutes options),
        o_routeOptions = spread Map.empty (routeOptions options),
        o_trailingSlash = spread False (trailingSlash options),
        o_lastmod = spread now (lastmod_opt options),
        o_prettyPrint = spread True (prettyPrint options),
        o_manualRoutes = spread_nodefault (manualRoutes options)\<rparr>)"

subsection \<open>Regular expressions\<close>

text \<open>
  \<^verbatim>\<open>isExcludedRoute\<close> builds a \<^verbatim>\<open>RegExp\<close> from a string of the configuration.
  The model covers the regular expressions made of \<^verbatim>\<open>^\<close>, \<^verbatim>\<open>$\<close>, \<^verbatim>\<open>.\<close>,
  \<^verbatim>\<open>.*\<close> and literal characters. A source string with any other syntax character
  (backslash, \<^verbatim>\<open>| + ( ) [ ] { } ?\<close>, or a \<^verbatim>\<open>*\<close> that does not follow a dot) has no
  parse here: the generator then ends with \<open>RegExpNotModelled\<close>, which stands for
  whatever JavaScript does (a SyntaxError or a match by rules outside the model).
\<close>

datatype regex_item = LineStart | LineEnd | AnyChar | AnyStar | Literal char

definition isSyntaxCharacter :: "char \<Rightarrow> bool" where
  "isSyntaxCharacter c =
     (c \<in> {CHR 0x5C, CHR ''|'', CHR ''+'', CHR ''('', CHR '')'', CHR ''['', CHR '']'',
            CHR ''{'', CHR ''}'', CHR ''?'', CHR ''*''})"

text \<open>A dot does not match a line terminator.\<close>

definition isLineTerminator :: "char \<Rightarrow> bool" where
  "isLineTerminator c = (c = CHR 0x0A \<or> c = CHR 0x0D)"

fun regex_parse :: "string \<Rightarrow> regex_item list option" where
  "regex_parse [] = Some []"
| "regex_parse (c # cs) =
     (if c = CHR ''.'' \<and> cs \<noteq> [] \<and> hd cs = CHR ''*''
        then map_option (Cons AnyStar) (regex_parse (tl cs))
      else if c = CHR ''.'' then map_option (Cons AnyChar) (regex_parse cs)
      else if c = CHR ''^'' then map_option (Cons LineStart) (regex_parse cs)
      else if c = CHR ''$'' then map_option (Cons LineEnd) (regex_parse cs)
      else if isSyntaxCharacter c then None
      else map_option (Cons (Literal c)) (regex_parse cs))"

text \<open>\<open>regex_match_here r st s\<close>: the items \<open>r\<close> match a prefix of the rest \<open>s\<close> of the
  input; \<open>st\<close> says that \<open>s\<close> is the whole input.\<close>

fun regex_match_here :: "regex_item list \<Rightarrow> bool \<Rightarrow> string \<Rightarrow> bool" where
  "regex_match_here [] st s = True"
| "regex_match_here (LineStart # r) st s = (st \<and> regex_match_here r st s)"
| "regex_match_here (LineEnd # r) st s = (s = [] \<and> regex_match_here r st s)"
| "regex_match_here (AnyChar # r) st [] = False"
| "regex_match_here (AnyChar # r) st (x # xs) =
     (\<not> isLineTerminator x \<and> regex_match_here r False xs)"
| "regex_match_here (Literal c # r) st [] = False"
| "regex_match_here (Literal c # r) st (x # xs) = (x = c \<and> regex_match_here r False xs)"
| "regex_match_here (AnyStar # r) st [] = regex_match_here r st []"
| "regex_match_here (AnyStar # r) st (x # xs) =
     (regex_match_here r st (x # xs) \<or>
      (\<not> isLineTerminator x \<and> regex_match_here (AnyStar # r) False xs))"

text \<open>\<^verbatim>\<open>regex.test(s)\<close>: there is a match that starts somewhere in \<open>s\<close>.\<close>

fun regex_test_from :: "regex_item list \<Rightarrow> bool \<Rightarrow> string \<Rightarrow> bool" where
  "regex_test_from r st [] = regex_match_here r st []"
| "regex_test_from r st (x # xs) =
     (regex_match_here r st (x # xs) \<or> regex_test_from r False xs)"

definition regex_test :: "regex_item list \<Rightarrow> string \<Rightarrow> bool" where
  "regex_test r s = regex_test_from r True s"

subsection \<open>Paths\<close>

definition isDynamicRoute :: "string \<Rightarrow> bool" where
  "isDynamicRoute routePath =
     (includes_char routePath (CHR ''$'') \<or> includes_char routePath (CHR ''['') \<or>
      includes_char routePath (CHR '']''))"

definition buildFullPath :: "string \<Rightarrow> string \<Rightarrow> string" where
  "buildFullPath parentPath routePath =
     (if startsWith routePath ''/'' then routePath
      else if isDynamicRoute routePath then ''''
      else if routePath = '''' \<or> routePath = ''index''
        then (if parentPath = '''' then ''/'' else parentPath)
      else if routePath = ''__root__'' then ''''
      else replaceRuns (CHR ''/'') ''/''
             (if parentPath = ''/'' then ''/'' @ routePath
              else parentPath @ ''/'' @ routePath))"

subsection \<open>Exclusion\<close>

text \<open>The callback of \<^verbatim>\<open>excludeRoutes.some\<close> in \<^verbatim>\<open>isExcludedRoute\<close>. The early
  \<^verbatim>\<open>return true\<close> of a pattern that ends in \<^verbatim>\<open>/*\<close> comes before the
  \<^verbatim>\<open>RegExp\<close> is built.\<close>

definition excludeMatches :: "string \<Rightarrow> string \<Rightarrow> error + bool" where
  "excludeMatches path' excludePath =
     (if includes_char excludePath (CHR ''*'') then
        (let pattern = replaceAll (CHR ''?'') ''.'' (replaceRuns (CHR ''*'') ''.*'' excludePath) in
         if endsWith excludePath ''/*'' \<and>
            (let basePath = slice_0_m2 excludePath
             in path' = basePath \<or> startsWith path' (basePath @ ''/''))
         then Inr True
         else (case regex_parse (''^'' @ pattern @ ''$'') of
                 None \<Rightarrow> Inl RegExpNotModelled
               | Some regex \<Rightarrow> Inr (regex_test regex path')))
      else Inr (path' = excludePath))"

text \<open>\<^verbatim>\<open>Array.prototype.some\<close> with a callback that may throw: it stops at the first
  element for which the callback returns true or throws.\<close>

fun some :: "('a \<Rightarrow> error + bool) \<Rightarrow> 'a list \<Rightarrow> error + bool" where
  "some f [] = Inr False"
| "some f (x # xs) =
     (case f x of
        Inl e \<Rightarrow> Inl e
      | Inr b \<Rightarrow> if b then Inr True else some f xs)"

text \<open>With \<^verbatim>\<open>excludeRoutes: undefined\<close> in the configuration, the call of
  \<^verbatim>\<open>some\<close> is a TypeError.\<close>

definition isExcludedRoute :: "'w generator \<Rightarrow> string \<Rightarrow> error + bool" where
  "isExcludedRoute g path' =
     (case o_excludeRoutes g of
        None \<Rightarrow> Inl TypeError
      | Some patterns \<Rightarrow> some (excludeMatches path') patterns)"

subsection \<open>The tree flattener\<close>

text \<open>The body of \<^verbatim>\<open>extractRoutesFromTree\<close> up to the loop over the children: the
  descriptor of the node itself, if it qualifies. With \<^verbatim>\<open>routeOptions: undefined\<close>
  in the configuration, the lookup is a TypeError.\<close>

definition ownRoute :: "'w generator \<Rightarrow> string \<Rightarrow> string \<Rightarrow> error + RouteInfo list" where
  "ownRoute g routePath fullPath =
     (if fullPath \<noteq> '''' \<and> \<not> isDynamicRoute routePath then
        (case isExcludedRoute g fullPath of
           Inl e \<Rightarrow> Inl e
         | Inr excluded \<Rightarrow>
             if excluded then Inr []
             else (case o_routeOptions g of
                     None \<Rightarrow> Inl TypeError
                   | Some ro \<Rightarrow>
                       Inr [\<lparr>path = fullPath, includedInSitemap = True,
                             sitemapOptions =
                               (case ro fullPath of None \<Rightarrow> emptyPartial | Some p \<Rightarrow> p)\<rparr>]))
      else Inr [])"

fun extractRoutesFromTree :: "'w generator \<Rightarrow> TanStackRoute \<Rightarrow> string \<Rightarrow> error + RouteInfo list"
  and extractChildren :: "'w generator \<Rightarrow> TanStackRoute list \<Rightarrow> string \<Rightarrow> error + RouteInfo list"
where
  "extractRoutesFromTree g (TanStackRoute p cs) parentPath =
     (let routePath = (case p of None \<Rightarrow> '''' | Some s \<Rightarrow> s);
          fullPath = buildFullPath parentPath routePath
      in case ownRoute g routePath fullPath of
           Inl e \<Rightarrow> Inl e
         | Inr routes \<Rightarrow>
             (case extractChildren g cs fullPath of
                Inl e \<Rightarrow> Inl e
              | Inr others \<Rightarrow> Inr (routes @ others)))"
| "extractChildren g [] fullPath = Inr []"
| "extractChildren g (childRoute # rest) fullPath =
     (case extractRoutesFromTree g childRoute fullPath of
        Inl e \<Rightarrow> Inl e
      | Inr routes \<Rightarrow>
          (case extractChildren g rest fullPath of
             Inl e \<Rightarrow> Inl e
           | Inr others \<Rightarrow> Inr (routes @ others)))"

subsection \<open>The entry resolver\<close>

text \<open>\<^verbatim>\<open>a || b\<close> on optional values: \<open>a\<close> if it is defined and truthy, else \<open>b\<close>.
  A string is truthy when it is not empty; every \<open>changefreq\<close> is a non-empty
  string.\<close>

definition truthy_string :: "string \<Rightarrow> bool" where
  "truthy_string s = (s \<noteq> '''')"

definition truthy_changefreq :: "changefreq \<Rightarrow> bool" where
  "truthy_changefreq c = truthy_string (changefreq_string c)"

definition js_or :: "('a \<Rightarrow> bool) \<Rightarrow> 'a option \<Rightarrow> 'a option \<Rightarrow> 'a option" where
  "js_or truthy a b = (case a of None \<Rightarrow> b | Some v \<Rightarrow> if truthy v then Some v else b)"

definition buildFullUrl :: "'w generator \<Rightarrow> string \<Rightarrow> string" where
  "buildFullUrl g path' =
     (let baseUrl' = stripTrailingSlash (o_baseUrl g);
          fullPath =
            (if o_trailingSlash g = Some True \<and> \<not> endsWith path' ''/'' \<and> path' \<noteq> ''/''
             then path' @ ''/'' else path')
      in baseUrl' @ fullPath)"

definition createSitemapEntry :: "'w generator \<Rightarrow> RouteInfo \<Rightarrow> SitemapEntry" where
  "createSitemapEntry g route =
     \<lparr>url = buildFullUrl g (path route),
      lastmod = js_or truthy_string (p_lastmod (sitemapOptions route)) (o_lastmod g),
      changefreq =
        js_or truthy_changefreq (p_changefreq (sitemapOptions route)) (o_defaultChangefreq g),
      priority = js_or truthy_number (p_priority (sitemapOptions route)) (o_defaultPriority g)\<rparr>"

text \<open>The conversion of \<^verbatim>\<open>route.lastMod\<close> in \<^verbatim>\<open>createManualSitemapEntry\<close>: a falsy
  value (absent, or the empty string) leaves \<^verbatim>\<open>lastmod\<close> undefined; a
  \<^verbatim>\<open>Date\<close> is converted with \<^verbatim>\<open>toISOString\<close>, which throws for an invalid date.\<close>

fun convertLastMod :: "lastMod_value option \<Rightarrow> error + string option" where
  "convertLastMod None = Inr None"
| "convertLastMod (Some (LastModString s)) = Inr (if truthy_string s then Some s else None)"
| "convertLastMod (Some (LastModDate (ValidDate isoString))) = Inr (Some isoString)"
| "convertLastMod (Some (LastModDate InvalidDate)) = Inl RangeError"

definition createManualSitemapEntry :: "'w generator \<Rightarrow> ManualSitemapEntry \<Rightarrow> error + SitemapEntry" where
  "createManualSitemapEntry g route =
     (case convertLastMod (lastMod route) of
        Inl e \<Rightarrow> Inl e
      | Inr lastmod' \<Rightarrow>
          Inr \<lparr>url = buildFullUrl g (location route),
               lastmod = js_or truthy_string lastmod' (o_lastmod g),
               changefreq = js_or truthy_changefreq (changeFrequency route) (o_defaultChangefreq g),
               priority =
                 (case m_priority route of
                    Some p \<Rightarrow> Some p
                  | None \<Rightarrow> o_defaultPriority g)\<rparr>)"

text \<open>\<^verbatim>\<open>manualRoutes.filter((route) => !this.isExcludedRoute(route.location))\<close> and
  \<^verbatim>\<open>.map((route) => this.createManualSitemapEntry(route))\<close>, with callbacks that may
  throw.\<close>

fun filterNotExcluded :: "'w generator \<Rightarrow> ManualSitemapEntry list \<Rightarrow> error + ManualSitemapEntry list" where
  "filterNotExcluded g [] = Inr []"
| "filterNotExcluded g (route # rest) =
     (case isExcludedRoute g (location route) of
        Inl e \<Rightarrow> Inl e
      | Inr excluded \<Rightarrow>
          (case filterNotExcluded g rest of
             Inl e \<Rightarrow> Inl e
           | Inr kept \<Rightarrow> Inr (if excluded then kept else route # kept)))"

fun mapManual :: "'w generator \<Rightarrow> ManualSitemapEntry list \<Rightarrow> error + SitemapEntry list" where
  "mapManual g [] = Inr []"
| "mapManual g (route # rest) =
     (case createManualSitemapEntry g route of
        Inl e \<Rightarrow> Inl e
      | Inr entry \<Rightarrow>
          (case mapManual g rest of
             Inl e \<Rightarrow> Inl e
           | Inr entries \<Rightarrow> Inr (entry # entries)))"

definition manualWarning :: string where
  "manualWarning = ''Warning: Failed to generate manual routes:''"

text \<open>
  \<^verbatim>\<open>generateManualRoutes\<close> returns the entries and what it has logged. Its
  \<^verbatim>\<open>catch\<close> turns every exception of the \<^verbatim>\<open>try\<close> block into a warning and an empty
  result. \<open>RegExpNotModelled\<close> is no exception of JavaScript but the model's ignorance,
  and is passed on.
\<close>

definition tryManual :: "'w generator \<Rightarrow> ManualSitemapEntry list \<Rightarrow> error + SitemapEntry list" where
  "tryManual g routes =
     (case filterNotExcluded g routes of
        Inl e \<Rightarrow> Inl e
      | Inr kept \<Rightarrow> mapManual g kept)"

definition catchWarn :: "error + SitemapEntry list \<Rightarrow> error + SitemapEntry list \<times> string list" where
  "catchWarn r =
     (case r of
        Inl e \<Rightarrow> if e = RegExpNotModelled then Inl e else Inr ([], [manualWarning])
      | Inr entries \<Rightarrow> Inr (entries, []))"

definition generateManualRoutes :: "'w generator \<Rightarrow> 'w \<Rightarrow> error + SitemapEntry list \<times> string list" where
  "generateManualRoutes g w =
     (case o_manualRoutes g of
        None \<Rightarrow> Inr ([], [])
      | Some provider \<Rightarrow>
          catchWarn
            (case provider w of
               Thrown \<Rightarrow> Inl ProviderFailure
             | Rejected \<Rightarrow> Inl ProviderFailure
             | Returned routes \<Rightarrow> tryManual g routes
             | Fulfilled routes \<Rightarrow> tryManual g routes))"

text \<open>\<^verbatim>\<open>self.findIndex(pred)\<close> and \<^verbatim>\<open>routes.filter((route, index, self) => ...)\<close>.\<close>

fun findIndexFrom :: "('a \<Rightarrow> bool) \<Rightarrow> int \<Rightarrow> 'a list \<Rightarrow> int" where
  "findIndexFrom pred i [] = - 1"
| "findIndexFrom pred i (x # xs) = (if pred x then i else findIndexFrom pred (i + 1) xs)"

definition findIndex :: "('a \<Rightarrow> bool) \<Rightarrow> 'a list \<Rightarrow> int" where
  "findIndex pred xs = findIndexFrom pred 0 xs"

fun filterFrom :: "('a \<Rightarrow> int \<Rightarrow> 'a list \<Rightarrow> bool) \<Rightarrow> 'a list \<Rightarrow> int \<Rightarrow> 'a list \<Rightarrow> 'a list" where
  "filterFrom f self i [] = []"
| "filterFrom f self i (x # xs) =
     (if f x i self then x # filterFrom f self (i + 1) xs else filterFrom f self (i + 1) xs)"

definition filterIndexed :: "('a \<Rightarrow> int \<Rightarrow> 'a list \<Rightarrow> bool) \<Rightarrow> 'a list \<Rightarrow> 'a list" where
  "filterIndexed f xs = filterFrom f xs 0 xs"

definition uniqueRoutes :: "RouteInfo list \<Rightarrow> RouteInfo list" where
  "uniqueRoutes routes =
     filterIndexed
       (\<lambda>route index self.
          includedInSitemap route \<and> findIndex (\<lambda>r. path r = path route) self = index)
       routes"

definition generateSitemapEntries ::
  "'w generator \<Rightarrow> 'w \<Rightarrow> TanStackRoute \<Rightarrow> error + SitemapEntry list \<times> string list" where
  "generateSitemapEntries g w routeTree =
     (case extractRoutesFromTree g routeTree '''' of
        Inl e \<Rightarrow> Inl e
      | Inr routes \<Rightarrow>
          (let staticEntries = map (createSitemapEntry g) (uniqueRoutes routes)
           in case generateManualRoutes g w of
                Inl e \<Rightarrow> Inl e
              | Inr (manualEntries, logged) \<Rightarrow> Inr (staticEntries @ manualEntries, logged)))"

subsection \<open>The XML renderer\<close>

definition escapeXml :: "string \<Rightarrow> string" where
  "escapeXml text =
     replaceAll (CHR 0x27) ''&apos;''
       (replaceAll (CHR 0x22) ''&quot;''
          (replaceAll (CHR ''>'') ''&gt;''
             (replaceAll (CHR ''<'') ''&lt;''
                (replaceAll (CHR ''&'') ''&amp;'' text))))"

text \<open>One round of the loop of \<^verbatim>\<open>entriesToXml\<close>: what it appends to \<^verbatim>\<open>xml\<close>.\<close>

definition appendUrl :: "string \<Rightarrow> string \<Rightarrow> string \<Rightarrow> SitemapEntry \<Rightarrow> string" where
  "appendUrl indent newline xml entry =
     (let xml1 = xml @ indent @ ''<url>'' @ newline;
          xml2 = xml1 @ indent @ indent @ ''<loc>'' @ escapeXml (url entry) @ ''</loc>'' @ newline;
          xml3 = (case lastmod entry of
                    Some l \<Rightarrow>
                      if truthy_string l
                      then xml2 @ indent @ indent @ ''<lastmod>'' @ l @ ''</lastmod>'' @ newline
                      else xml2
                  | None \<Rightarrow> xml2);
          xml4 = (case changefreq entry of
                    Some c \<Rightarrow>
                      if truthy_changefreq c
                      then xml3 @ indent @ indent @ ''<changefreq>'' @ changefreq_string c
                             @ ''</changefreq>'' @ newline
                      else xml3
                  | None \<Rightarrow> xml3);
          xml5 = (case priority entry of
                    Some p \<Rightarrow>
                      xml4 @ indent @ indent @ ''<priority>'' @ toFixed1 p @ ''</priority>''
                        @ newline
                  | None \<Rightarrow> xml4)
      in xml5 @ indent @ ''</url>'' @ newline)"

definition xmlDeclaration :: string where
  \<open>xmlDeclaration = ''<?xml version="1.0" encoding="UTF-8"?>''\<close>

definition urlsetOpen :: string where
  \<open>urlsetOpen = ''<urlset xmlns="http://www.sitemaps.org/schemas/sitemap/0.9">''\<close>

definition entriesToXml :: "'w generator \<Rightarrow> SitemapEntry list \<Rightarrow> string" where
  "entriesToXml g entries =
     (let indent = (if o_prettyPrint g = Some True then ''  '' else '''');
          newline = (if o_prettyPrint g = Some True then [CHR 0x0A] else '''');
          xml0 = xmlDeclaration @ newline;
          xml1 = xml0 @ urlsetOpen @ newline
      in foldl (appendUrl indent newline) xml1 entries @ ''</urlset>'')"

definition generateXmlSitemap ::
  "'w generator \<Rightarrow> 'w \<Rightarrow> TanStackRoute \<Rightarrow> error + string \<times> string list" where
  "generateXmlSitemap g w routeTree =
     (case generateSitemapEntries g w routeTree of
        Inl e \<Rightarrow> Inl e
      | Inr (entries, logged) \<Rightarrow> Inr (entriesToXml g entries, logged))"

subsection \<open>The wrappers of sitemap-generator.ts\<close>

text \<open>\<^verbatim>\<open>generateSitemap(routeTree, options)\<close> and
  \<^verbatim>\<open>generateSitemapEntries(routeTree, options)\<close>: each builds a generator at the time
  \<open>now\<close> and calls its method.\<close>

definition generateSitemap ::
  "string \<Rightarrow> 'w \<Rightarrow> TanStackRoute \<Rightarrow> 'w SitemapOptions \<Rightarrow> error + string \<times> string list" where
  "generateSitemap now w routeTree options =
     (case constructor now options of
        Inl e \<Rightarrow> Inl e
      | Inr g \<Rightarrow> generateXmlSitemap g w routeTree)"

definition generateSitemapEntries_fn ::
  "string \<Rightarrow> 'w \<Rightarrow> TanStackRoute \<Rightarrow> 'w SitemapOptions \<Rightarrow> error + SitemapEntry list \<times> string list" where
  "generateSitemapEntries_fn now w routeTree options =
     (case constructor now options of
        Inl e \<Rightarrow> Inl e
      | Inr g \<Rightarrow> generateSitemapEntries g w routeTree)"

subsection \<open>The specification's side\<close>

text \<open>
  The definitions of this subsection follow the words of the specification, not the
  source; the theorems below compare them with the source's functions.
\<close>

text \<open>Deduplication: ``keep a descriptor only if no earlier-positioned descriptor shares
  the same fullPath''.\<close>

definition spec_dedup :: "RouteInfo list \<Rightarrow> RouteInfo list" where
  "spec_dedup routes =
     map (\<lambda>i. routes ! i)
       (filter (\<lambda>i. \<forall>j<i. path (routes ! j) \<noteq> path (routes ! i)) [0..<length routes])"

text \<open>Escaping as one substitution per character of the text.\<close>

definition escapeChar :: "char \<Rightarrow> string" where
  "escapeChar c =
     (if c = CHR ''&'' then ''&amp;''
      else if c = CHR ''<'' then ''&lt;''
      else if c = CHR ''>'' then ''&gt;''
      else if c = CHR 0x22 then ''&quot;''
      else if c = CHR 0x27 then ''&apos;''
      else [c])"

text \<open>One \<^verbatim>\<open><url>\<close> block: \<^verbatim>\<open><loc>\<close> always, then \<^verbatim>\<open><lastmod>\<close>,
  \<^verbatim>\<open><changefreq>\<close> and \<^verbatim>\<open><priority>\<close>, each if present.\<close>

definition spec_urlBlock :: "string \<Rightarrow> string \<Rightarrow> SitemapEntry \<Rightarrow> string" where
  "spec_urlBlock indent newline entry =
     indent @ ''<url>'' @ newline
     @ indent @ indent @ ''<loc>'' @ concat (map escapeChar (url entry)) @ ''</loc>'' @ newline
     @ (case lastmod entry of
          None \<Rightarrow> ''''
        | Some l \<Rightarrow> indent @ indent @ ''<lastmod>'' @ l @ ''</lastmod>'' @ newline)
     @ (case changefreq entry of
          None \<Rightarrow> ''''
        | Some c \<Rightarrow>
            indent @ indent @ ''<changefreq>'' @ changefreq_string c @ ''</changefreq>'' @ newline)
     @ (case priority entry of
          None \<Rightarrow> ''''
        | Some p \<Rightarrow> indent @ indent @ ''<priority>'' @ toFixed1 p @ ''</priority>'' @ newline)
     @ indent @ ''</url>'' @ newline"

text \<open>The document: the declaration, the root element, one block per entry.\<close>

definition spec_render :: "bool \<Rightarrow> SitemapEntry list \<Rightarrow> string" where
  "spec_render pretty entries =
     (let indent = (if pretty then ''  '' else '''');
          newline = (if pretty then [CHR 0x0A] else '''')
      in xmlDeclaration @ newline @ urlsetOpen @ newline
         @ concat (map (spec_urlBlock indent newline) entries)
         @ ''</urlset>'')"

text \<open>A number printed with exactly one decimal digit: an optional minus sign, one or
  more digits, a point, one digit.\<close>

definition isDigit :: "char \<Rightarrow> bool" where
  "isDigit c = (c \<in> set ''0123456789'')"

definition oneDecimal :: "string \<Rightarrow> bool" where
  "oneDecimal s =
     (let t = (if s \<noteq> [] \<and> hd s = CHR ''-'' then tl s else s)
      in 3 \<le> length t \<and> isDigit (last t) \<and> last (butlast t) = CHR ''.'' \<and>
         (\<forall>c\<in>set (butlast (butlast t)). isDigit c))"

subsection \<open>Example inputs\<close>

text \<open>An options object with \<^verbatim>\<open>baseUrl\<close> only.\<close>

definition onlyBaseUrl :: "string \<Rightarrow> 'w SitemapOptions" where
  "onlyBaseUrl b = \<lparr>baseUrl = b, defaultChangefreq = Absent, defaultPriority = Absent,
     excludeRoutes = Absent, routeOptions = Absent, trailingSlash = Absent, lastmod_opt = Absent,
     prettyPrint = Absent, manualRoutes = Absent\<rparr>"

text \<open>A generator with an override for \<^verbatim>\<open>/about\<close> (the test ``should apply custom
  route options'').\<close>

definition aboutGenerator :: "unit generator" where
  "aboutGenerator =
     \<lparr>o_baseUrl = ''https://example.com'', o_defaultChangefreq = Some Weekly,
      o_defaultPriority = Some (Finite (1 / 2)), o_excludeRoutes = Some [],
      o_routeOptions = Some [''/about'' \<mapsto>
         \<lparr>p_url = None, p_lastmod = None, p_changefreq = Some Monthly,
          p_priority = Some (Finite (9 / 10))\<rparr>],
      o_trailingSlash = Some False, o_lastmod = Some ''2024-01-01T00:00:00.000Z'',
      o_prettyPrint = Some True, o_manualRoutes = None\<rparr>"

text \<open>Options with a fixed \<^verbatim>\<open>lastmod\<close> and a provider that ignores its environment,
  the generator that the constructor makes of them, a tree with a duplicate path, and
  shorthands for the descriptors and entries they lead to.\<close>

definition examplePage :: ManualSitemapEntry where
  "examplePage = \<lparr>location = ''/home'', m_priority = Some (Finite (9 / 10)),
     lastMod = None, changeFrequency = None\<rparr>"

definition exampleOptions :: "nat SitemapOptions" where
  "exampleOptions =
     \<lparr>baseUrl = ''https://example.com'', defaultChangefreq = Absent, defaultPriority = Absent,
      excludeRoutes = Absent, routeOptions = Absent, trailingSlash = Absent,
      lastmod_opt = Value ''2023-01-01T00:00:00.000Z'', prettyPrint = Absent,
      manualRoutes = Value (\<lambda>w. Returned [examplePage])\<rparr>"

definition exampleGenerator :: "nat generator" where
  "exampleGenerator =
     \<lparr>o_baseUrl = ''https://example.com'', o_defaultChangefreq = Some Weekly,
      o_defaultPriority = Some (Finite (1 / 2)), o_excludeRoutes = Some [],
      o_routeOptions = Some Map.empty, o_trailingSlash = Some False,
      o_lastmod = Some ''2023-01-01T00:00:00.000Z'', o_prettyPrint = Some True,
      o_manualRoutes = Some (\<lambda>w. Returned [examplePage])\<rparr>"

definition exampleTree :: TanStackRoute where
  "exampleTree =
     TanStackRoute (Some ''/'')
       [TanStackRoute (Some ''home'') [], TanStackRoute (Some ''home'') [],
        TanStackRoute (Some ''about'') []]"

definition exampleRoute :: "string \<Rightarrow> RouteInfo" where
  "exampleRoute p = \<lparr>path = p, includedInSitemap = True, sitemapOptions = emptyPartial\<rparr>"

definition exampleEntry :: "string \<Rightarrow> rat \<Rightarrow> SitemapEntry" where
  "exampleEntry u p = \<lparr>url = u, lastmod = Some ''2023-01-01T00:00:00.000Z'',
     changefreq = Some Weekly, priority = Some (Finite p)\<rparr>"

section \<open>Properties\<close>

lemmas generator_defs =
  generateSitemapEntries_fn_def generateSitemap_def generateXmlSitemap_def
  constructor_def trim_def isWhiteSpace_def generateSitemapEntries_def
  buildFullPath_def startsWith_def endsWith_def isDynamicRoute_def includes_char_def
  ownRoute_def isExcludedRoute_def excludeMatches_def emptyPartial_def uniqueRoutes_def
  filterIndexed_def findIndex_def createSitemapEntry_def buildFullUrl_def
  stripTrailingSlash_def js_or_def generateManualRoutes_def catchWarn_def tryManual_def
  createManualSitemapEntry_def truthy_string_def truthy_changefreq_def slice_0_m2_def
  replaceAll_def regex_test_def isSyntaxCharacter_def isLineTerminator_def

lemmas example_defs = examplePage_def exampleOptions_def exampleGenerator_def exampleTree_def
  exampleRoute_def exampleEntry_def

subsection \<open>The examples, evaluated\<close>

lemma example_constructor: "constructor now exampleOptions = Inr exampleGenerator"
  by (simp add: generator_defs example_defs)

lemma example_extract:
  "extractRoutesFromTree exampleGenerator exampleTree '''' =
     Inr [exampleRoute ''/'', exampleRoute ''/home'', exampleRoute ''/home'', exampleRoute ''/about'']"
  by (simp add: generator_defs example_defs)

lemma example_manual:
  "generateManualRoutes exampleGenerator w =
     Inr ([exampleEntry ''https://example.com/home'' (9 / 10)], [])"
  by (simp add: generator_defs example_defs)

lemma example_entries:
  "generateSitemapEntries exampleGenerator w exampleTree =
     Inr ([exampleEntry ''https://example.com/'' (1 / 2),
           exampleEntry ''https://example.com/home'' (1 / 2),
           exampleEntry ''https://example.com/about'' (1 / 2),
           exampleEntry ''https://example.com/home'' (9 / 10)], [])"
  by (simp add: generator_defs example_defs)

subsection \<open>What the flattener returns\<close>

lemma ownRoute_props:
  "ownRoute g routePath fullPath = Inr routes \<Longrightarrow> r \<in> set routes \<Longrightarrow>
   includedInSitemap r \<and> path r = fullPath \<and> fullPath \<noteq> '''' \<and> \<not> isDynamicRoute routePath \<and>
   isExcludedRoute g fullPath = Inr False \<and>
   (\<exists>ro. o_routeOptions g = Some ro \<and>
      sitemapOptions r = (case ro (path r) of None \<Rightarrow> emptyPartial | Some p \<Rightarrow> p))"
  by (auto simp: ownRoute_def split: if_splits sum.splits option.splits)

text \<open>Every descriptor of the result was pushed by some node for itself.\<close>

lemma extract_from_ownRoute:
  "extractRoutesFromTree g t parentPath = Inr routes \<Longrightarrow> r \<in> set routes \<Longrightarrow>
     \<exists>routePath fullPath own. ownRoute g routePath fullPath = Inr own \<and> r \<in> set own"
  and "extractChildren g ts parentPath = Inr routes \<Longrightarrow> r \<in> set routes \<Longrightarrow>
     \<exists>routePath fullPath own. ownRoute g routePath fullPath = Inr own \<and> r \<in> set own"
proof (induction g t parentPath and g ts parentPath arbitrary: routes and routes
    rule: extractRoutesFromTree_extractChildren.induct)
  case (1 g p cs parentPath)
  define routePath where "routePath = (case p of None \<Rightarrow> '''' | Some s \<Rightarrow> s)"
  define fullPath where "fullPath = buildFullPath parentPath routePath"
  from "1.prems"(1) obtain own others where own: "ownRoute g routePath fullPath = Inr own"
    and others: "extractChildren g cs fullPath = Inr others" and routes: "routes = own @ others"
    by (auto simp: routePath_def fullPath_def Let_def split: sum.splits)
  from "1.prems"(2) routes consider "r \<in> set own" | "r \<in> set others" by auto
  then show ?case
  proof cases
    case 1
    with own show ?thesis by blast
  next
    case 2
    with "1.IH"[OF routePath_def fullPath_def own others] show ?thesis by blast
  qed
next
  case (2 g fullPath)
  then show ?case by simp
next
  case (3 g childRoute rest fullPath)
  from "3.prems"(1) obtain first others
    where first: "extractRoutesFromTree g childRoute fullPath = Inr first"
      and others: "extractChildren g rest fullPath = Inr others"
      and routes: "routes = first @ others"
    by (auto split: sum.splits)
  from "3.prems"(2) routes consider "r \<in> set first" | "r \<in> set others" by auto
  then show ?case
  proof cases
    case 1
    with "3.IH"(1)[OF first] show ?thesis by blast
  next
    case 2
    with "3.IH"(2)[OF first others] show ?thesis by blast
  qed
qed

lemma extract_route_props:
  assumes "extractRoutesFromTree g t parentPath = Inr routes" and "r \<in> set routes"
  shows "includedInSitemap r \<and> path r \<noteq> '''' \<and> isExcludedRoute g (path r) = Inr False \<and>
   (\<exists>ro. o_routeOptions g = Some ro \<and>
      sitemapOptions r = (case ro (path r) of None \<Rightarrow> emptyPartial | Some p \<Rightarrow> p))"
proof -
  from extract_from_ownRoute(1)[OF assms] obtain routePath fullPath own
    where "ownRoute g routePath fullPath = Inr own" "r \<in> set own" by blast
  from ownRoute_props[OF this] show ?thesis by blast
qed

subsection \<open>Dynamic segments in emitted paths\<close>

text \<open>
  Claim C1 says that no segment with \<^verbatim>\<open>$\<close>, \<^verbatim>\<open>[\<close> or \<^verbatim>\<open>]\<close> appears in the path of
  an emitted entry, also not inherited from an ancestor whose raw path starts with
  \<^verbatim>\<open>/\<close>. The generator does not keep to it: \<^verbatim>\<open>buildFullPath\<close> returns a raw path
  that starts with \<^verbatim>\<open>/\<close> before it looks for dynamic segments, so the node
  \<^verbatim>\<open>/users/$id\<close> hands its path to its children, and its child \<^verbatim>\<open>edit\<close> is emitted
  as \<^verbatim>\<open>https://example.com/users/$id/edit\<close>.
\<close>

theorem dynamic_absolute_prefix_inherited:
  "generateSitemapEntries_fn now w
     (TanStackRoute (Some ''/'')
        [TanStackRoute (Some ''/users/$id'') [TanStackRoute (Some ''edit'') []]])
     (onlyBaseUrl ''https://example.com'') =
   Inr (map (\<lambda>u. \<lparr>url = u, lastmod = Some now, changefreq = Some Weekly,
                    priority = Some (Finite (1 / 2))\<rparr>)
          [''https://example.com/'', ''https://example.com/users/$id/edit''],
        [])"
  by (simp add: generator_defs onlyBaseUrl_def)

subsection \<open>Per-route overrides\<close>

lemma truthy_changefreq_always: "truthy_changefreq c"
  by (cases c) (simp_all add: truthy_changefreq_def truthy_string_def)

text \<open>
  Claim C2, as the specification has it, fails: an override of priority \<open>0\<close> and an
  override of \<^verbatim>\<open>lastmod\<close> by the empty string are both ignored, and the entry gets the
  defaults \<open>0.5\<close> and the construction time.
\<close>

theorem routeOptions_falsy_override_counterexample:
  "generateSitemapEntries_fn ''2024-01-01T00:00:00.000Z'' ()
     (TanStackRoute (Some ''/'') [TanStackRoute (Some ''about'') []])
     ((onlyBaseUrl ''https://example.com'')
        \<lparr>routeOptions := Value [''/about'' \<mapsto>
           \<lparr>p_url = None, p_lastmod = Some '''', p_changefreq = None,
            p_priority = Some (Finite 0)\<rparr>]\<rparr>) =
   Inr ([\<lparr>url = ''https://example.com/'', lastmod = Some ''2024-01-01T00:00:00.000Z'',
          changefreq = Some Weekly, priority = Some (Finite (1 / 2))\<rparr>,
         \<lparr>url = ''https://example.com/about'', lastmod = Some ''2024-01-01T00:00:00.000Z'',
          changefreq = Some Weekly, priority = Some (Finite (1 / 2))\<rparr>], []) \<and>
   Some (Finite (1 / 2)) \<noteq> Some (Finite 0) \<and>
   Some ''2024-01-01T00:00:00.000Z'' \<noteq> Some ''''"
  by (simp add: generator_defs onlyBaseUrl_def)

text \<open>
  Claim C2, amended: for every flattened route descriptor whose path has an entry in
  \<^verbatim>\<open>routeOptions\<close>, a non-empty \<^verbatim>\<open>lastmod\<close>, any \<^verbatim>\<open>changefreq\<close> and a truthy
  \<^verbatim>\<open>priority\<close> (not \<open>0\<close>, not NaN) of that entry are the values of the sitemap entry,
  whatever the configuration-level defaults are; a missing field falls through to the
  default, and so does an empty \<^verbatim>\<open>lastmod\<close>. (Nothing is said about a priority of
  \<open>0\<close>.)
\<close>

theorem routeOptions_truthy_override_wins:
  assumes "extractRoutesFromTree g routeTree parentPath = Inr routes"
    and "route \<in> set routes"
    and "o_routeOptions g = Some ro"
    and "ro (path route) = Some override"
  shows
    "(\<forall>l. p_lastmod override = Some l \<and> l \<noteq> '''' \<longrightarrow>
        lastmod (createSitemapEntry g route) = Some l) \<and>
     (p_lastmod override = None \<or> p_lastmod override = Some '''' \<longrightarrow>
        lastmod (createSitemapEntry g route) = o_lastmod g) \<and>
     (\<forall>c. p_changefreq override = Some c \<longrightarrow>
        changefreq (createSitemapEntry g route) = Some c) \<and>
     (p_changefreq override = None \<longrightarrow>
        changefreq (createSitemapEntry g route) = o_defaultChangefreq g) \<and>
     (\<forall>p. p_priority override = Some p \<and> truthy_number p \<longrightarrow>
        priority (createSitemapEntry g route) = Some p) \<and>
     (p_priority override = None \<longrightarrow>
        priority (createSitemapEntry g route) = o_defaultPriority g)"
proof -
  from extract_route_props[OF assms(1,2)] assms(3,4)
  have so: "sitemapOptions route = override" by auto
  show ?thesis
    by (auto simp: createSitemapEntry_def js_or_def so truthy_string_def truthy_changefreq_always)
qed

theorem routeOptions_truthy_override_wins_witness:
  "extractRoutesFromTree aboutGenerator
     (TanStackRoute (Some ''/'') [TanStackRoute (Some ''about'') []]) '''' =
   Inr [\<lparr>path = ''/'', includedInSitemap = True, sitemapOptions = emptyPartial\<rparr>,
        \<lparr>path = ''/about'', includedInSitemap = True,
         sitemapOptions = \<lparr>p_url = None, p_lastmod = None, p_changefreq = Some Monthly,
                           p_priority = Some (Finite (9 / 10))\<rparr>\<rparr>] \<and>
   priority (createSitemapEntry aboutGenerator
     \<lparr>path = ''/about'', includedInSitemap = True,
      sitemapOptions = \<lparr>p_url = None, p_lastmod = None, p_changefreq = Some Monthly,
                        p_priority = Some (Finite (9 / 10))\<rparr>\<rparr>) = Some (Finite (9 / 10)) \<and>
   changefreq (createSitemapEntry aboutGenerator
     \<lparr>path = ''/about'', includedInSitemap = True,
      sitemapOptions = \<lparr>p_url = None, p_lastmod = None, p_changefreq = Some Monthly,
                        p_priority = Some (Finite (9 / 10))\<rparr>\<rparr>) = Some Monthly \<and>
   lastmod (createSitemapEntry aboutGenerator
     \<lparr>path = ''/about'', includedInSitemap = True,
      sitemapOptions = \<lparr>p_url = None, p_lastmod = None, p_changefreq = Some Monthly,
                        p_priority = Some (Finite (9 / 10))\<rparr>\<rparr>) =
     Some ''2024-01-01T00:00:00.000Z''"
proof -
  let ?ov = "\<lparr>p_url = None, p_lastmod = None, p_changefreq = Some Monthly,
              p_priority = Some (Finite (9 / 10))\<rparr>"
  let ?r = "\<lparr>path = ''/about'', includedInSitemap = True, sitemapOptions = ?ov\<rparr>"
  let ?ro = "[''/about'' \<mapsto> ?ov]"
  have h1: "extractRoutesFromTree aboutGenerator
     (TanStackRoute (Some ''/'') [TanStackRoute (Some ''about'') []]) '''' =
   Inr [\<lparr>path = ''/'', includedInSitemap = True, sitemapOptions = emptyPartial\<rparr>, ?r]"
    by (simp add: generator_defs aboutGenerator_def)
  have h2: "?r \<in> set [\<lparr>path = ''/'', includedInSitemap = True, sitemapOptions = emptyPartial\<rparr>, ?r]"
    by simp
  have h3: "o_routeOptions aboutGenerator = Some ?ro" by (simp add: aboutGenerator_def)
  have h4: "?ro (path ?r) = Some ?ov" by simp
  from routeOptions_truthy_override_wins[OF h1 h2 h3 h4] h1 show ?thesis
    by (simp add: aboutGenerator_def)
qed

subsection \<open>Exclusion patterns\<close>

lemma endsWith_star: "endsWith p ''/*'' \<Longrightarrow> includes_char p (CHR ''*'')"
  unfolding endsWith_def includes_char_def
  by (metis in_set_dropD list.set_intros(1,2))

lemma excludeMatches_slash_star:
  assumes "endsWith excludePath ''/*''"
    and "path' = slice_0_m2 excludePath \<or> startsWith path' (slice_0_m2 excludePath @ ''/'')"
  shows "excludeMatches path' excludePath = Inr True"
  using assms endsWith_star[OF assms(1)] by (simp add: excludeMatches_def Let_def)

text \<open>
  Claim C3: with the single exclusion pattern \<^verbatim>\<open>/admin/*\<close>, the paths \<^verbatim>\<open>/admin\<close> and
  \<^verbatim>\<open>/admin/x\<close> are excluded and \<^verbatim>\<open>/administrator\<close> is not; and for every pattern that
  ends in \<^verbatim>\<open>/*\<close>, a path is excluded if it equals the pattern without that suffix, or
  starts with the pattern without that suffix followed by \<^verbatim>\<open>/\<close>.
\<close>

theorem exclude_slash_star_matches:
  "isExcludedRoute (g\<lparr>o_excludeRoutes := Some [''/admin/*'']\<rparr>) ''/admin'' = Inr True \<and>
   isExcludedRoute (g\<lparr>o_excludeRoutes := Some [''/admin/*'']\<rparr>) ''/admin/x'' = Inr True \<and>
   isExcludedRoute (g\<lparr>o_excludeRoutes := Some [''/admin/*'']\<rparr>) ''/administrator'' = Inr False \<and>
   (\<forall>excludePath path'.
      endsWith excludePath ''/*'' \<and>
      (path' = slice_0_m2 excludePath \<or> startsWith path' (slice_0_m2 excludePath @ ''/''))
      \<longrightarrow> isExcludedRoute (g\<lparr>o_excludeRoutes := Some [excludePath]\<rparr>) path' = Inr True)"
proof -
  have a: "isExcludedRoute (g\<lparr>o_excludeRoutes := Some [''/admin/*'']\<rparr>) ''/admin'' = Inr True"
    by (simp add: generator_defs)
  have b: "isExcludedRoute (g\<lparr>o_excludeRoutes := Some [''/admin/*'']\<rparr>) ''/admin/x'' = Inr True"
    by (simp add: generator_defs)
  have c: "isExcludedRoute (g\<lparr>o_excludeRoutes := Some [''/admin/*'']\<rparr>) ''/administrator'' =
      Inr False"
    by (simp add: generator_defs)
  have d: "isExcludedRoute (g\<lparr>o_excludeRoutes := Some [excludePath]\<rparr>) path' = Inr True"
    if "endsWith excludePath ''/*''"
      "path' = slice_0_m2 excludePath \<or> startsWith path' (slice_0_m2 excludePath @ ''/'')"
    for excludePath path'
    using excludeMatches_slash_star[OF that] by (simp add: isExcludedRoute_def)
  from a b c d show ?thesis by blast
qed

theorem exclude_slash_star_matches_witness:
  "endsWith ''/private/*'' ''/*'' \<and>
   startsWith ''/private/secret'' (slice_0_m2 ''/private/*'' @ ''/'') \<and>
   isExcludedRoute (aboutGenerator\<lparr>o_excludeRoutes := Some [''/private/*'']\<rparr>)
     ''/private/secret'' = Inr True \<and>
   isExcludedRoute (aboutGenerator\<lparr>o_excludeRoutes := Some [''/admin/*'']\<rparr>)
     ''/administrator'' = Inr False"
proof -
  have 1: "endsWith ''/private/*'' ''/*''" by (simp add: endsWith_def)
  have 2: "startsWith ''/private/secret'' (slice_0_m2 ''/private/*'' @ ''/'')"
    by (simp add: startsWith_def slice_0_m2_def)
  from exclude_slash_star_matches[of aboutGenerator] 1 2 show ?thesis by blast
qed

subsection \<open>The round-trip scenario\<close>

text \<open>
  Claim C4: for the tree \<^verbatim>\<open>{path:'/', children:[{path:'home'},{path:'about'}]}\<close> and
  options with \<^verbatim>\<open>baseUrl: 'https://example.com'\<close> only, \<^verbatim>\<open>generateSitemapEntries\<close>
  yields exactly the URLs \<^verbatim>\<open>https://example.com/\<close>, \<^verbatim>\<open>https://example.com/home\<close> and
  \<^verbatim>\<open>https://example.com/about\<close>, in that order (each with the default metadata, and
  nothing logged).
\<close>

theorem roundtrip_scenario:
  "generateSitemapEntries_fn now w
     (TanStackRoute (Some ''/'') [TanStackRoute (Some ''home'') [], TanStackRoute (Some ''about'') []])
     (onlyBaseUrl ''https://example.com'') =
   Inr (map (\<lambda>u. \<lparr>url = u, lastmod = Some now, changefreq = Some Weekly,
                    priority = Some (Finite (1 / 2))\<rparr>)
          [''https://example.com/'', ''https://example.com/home'', ''https://example.com/about''],
        [])"
  by (simp add: generator_defs onlyBaseUrl_def)

theorem roundtrip_scenario_witness:
  "generateSitemapEntries_fn ''2024-01-01T00:00:00.000Z'' ()
     (TanStackRoute (Some ''/'') [TanStackRoute (Some ''home'') [], TanStackRoute (Some ''about'') []])
     (onlyBaseUrl ''https://example.com'') =
   Inr (map (\<lambda>u. \<lparr>url = u, lastmod = Some ''2024-01-01T00:00:00.000Z'', changefreq = Some Weekly,
                    priority = Some (Finite (1 / 2))\<rparr>)
          [''https://example.com/'', ''https://example.com/home'', ''https://example.com/about''],
        [])"
  by (rule roundtrip_scenario)

subsection \<open>Deduplication and the order of the entries\<close>

lemma findIndexFrom_range: "findIndexFrom pred i xs = - 1 \<or> i \<le> findIndexFrom pred i xs"
proof (induction xs arbitrary: i)
  case Nil
  show ?case by simp
next
  case (Cons x xs)
  from Cons[of "i + 1"] show ?case by auto
qed

text \<open>\<^verbatim>\<open>findIndex\<close> returns \<open>k\<close> exactly when \<open>k\<close> is the first position that satisfies
  the predicate.\<close>

lemma findIndexFrom_eq:
  "0 \<le> i \<Longrightarrow>
   (findIndexFrom pred i xs = i + int k) =
     (k < length xs \<and> pred (xs ! k) \<and> (\<forall>j<k. \<not> pred (xs ! j)))"
proof (induction xs arbitrary: i k)
  case Nil
  then show ?case by simp
next
  case (Cons x xs)
  show ?case
  proof (cases "pred x")
    case True
    then show ?thesis by (cases k) auto
  next
    case False
    show ?thesis
    proof (cases k)
      case 0
      from findIndexFrom_range[of pred "i + 1" xs] Cons.prems False 0
      show ?thesis by auto
    next
      case (Suc k')
      from Cons.prems have "0 \<le> i + 1" by simp
      have "i + 1 + int k' = i + int (Suc k')" by simp
      with Cons.IH[OF \<open>0 \<le> i + 1\<close>, of k'] False Suc
      show ?thesis by (simp add: All_less_Suc2)
    qed
  qed
qed

lemma findIndex_eq:
  "(findIndex pred xs = int k) =
     (k < length xs \<and> pred (xs ! k) \<and> (\<forall>j<k. \<not> pred (xs ! j)))"
  using findIndexFrom_eq[of 0 pred xs k] by (simp add: findIndex_def)

lemma filterFrom_nth:
  "filterFrom f self i xs =
     map (\<lambda>k. xs ! k) (filter (\<lambda>k. f (xs ! k) (i + int k) self) [0..<length xs])"
proof (induction xs arbitrary: i)
  case Nil
  show ?case by simp
next
  case (Cons x xs)
  have upt: "[0..<length (x # xs)] = 0 # map Suc [0..<length xs]"
    by (simp add: upt_conv_Cons map_Suc_upt del: upt_Suc)
  show ?case
    unfolding upt
    by (simp add: Cons.IH[of "i + 1"] filter_map comp_def add.assoc)
qed

lemma uniqueRoutes_spec_dedup:
  assumes "\<forall>r\<in>set routes. includedInSitemap r"
  shows "uniqueRoutes routes = spec_dedup routes"
proof -
  have "filter (\<lambda>k. includedInSitemap (routes ! k) \<and>
            findIndex (\<lambda>r. path r = path (routes ! k)) routes = 0 + int k) [0..<length routes] =
        filter (\<lambda>i. \<forall>j<i. path (routes ! j) \<noteq> path (routes ! i)) [0..<length routes]"
    using assms by (intro filter_cong refl) (auto simp: findIndex_eq)
  then show ?thesis
    by (simp add: uniqueRoutes_def filterIndexed_def filterFrom_nth spec_dedup_def)
qed

lemma distinct_spec_dedup: "distinct (map path (spec_dedup routes))"
proof -
  let ?P = "\<lambda>i. \<forall>j<i. path (routes ! j) \<noteq> path (routes ! i)"
  have "inj_on (\<lambda>i. path (routes ! i)) (set (filter ?P [0..<length routes]))"
  proof (rule inj_onI)
    fix a b assume a: "a \<in> set (filter ?P [0..<length routes])"
      and b: "b \<in> set (filter ?P [0..<length routes])"
      and eq: "path (routes ! a) = path (routes ! b)"
    from a b have "?P a" "?P b" by auto
    show "a = b"
    proof (rule ccontr)
      assume "a \<noteq> b"
      then consider "a < b" | "b < a" by linarith
      then show False
      proof cases
        case 1
        with \<open>?P b\<close> eq show False by auto
      next
        case 2
        with \<open>?P a\<close> eq show False by auto
      qed
    qed
  qed
  then show ?thesis
    by (simp add: spec_dedup_def comp_def distinct_map)
qed

lemma paths_spec_dedup: "path ` set (spec_dedup routes) = path ` set routes"
proof
  show "path ` set (spec_dedup routes) \<subseteq> path ` set routes"
    by (auto simp: spec_dedup_def)
  show "path ` set routes \<subseteq> path ` set (spec_dedup routes)"
  proof
    fix p assume "p \<in> path ` set routes"
    then obtain i where i: "i < length routes" "path (routes ! i) = p"
      by (auto simp: in_set_conv_nth)
    define k where "k = (LEAST k. path (routes ! k) = p)"
    have k: "path (routes ! k) = p" unfolding k_def using i(2) by (rule LeastI)
    have kle: "k \<le> i" unfolding k_def using i(2) by (rule Least_le)
    have least: "\<forall>j<k. path (routes ! j) \<noteq> path (routes ! k)"
    proof (intro allI impI)
      fix j assume "j < k"
      then have "\<not> path (routes ! j) = p" unfolding k_def by (rule not_less_Least)
      with k show "path (routes ! j) \<noteq> path (routes ! k)" by simp
    qed
    from kle i(1) have "k < length routes" by simp
    with least have "routes ! k \<in> set (spec_dedup routes)"
      by (auto simp: spec_dedup_def)
    with k show "p \<in> path ` set (spec_dedup routes)" by force
  qed
qed

lemma filterNotExcluded_filter:
  "filterNotExcluded g routes = Inr kept \<Longrightarrow>
     kept = filter (\<lambda>m. isExcludedRoute g (location m) = Inr False) routes"
  by (induction routes arbitrary: kept) (auto split: sum.splits if_splits)

lemma mapManual_map:
  "mapManual g routes = Inr entries \<Longrightarrow> map Inr entries = map (createManualSitemapEntry g) routes"
  by (induction routes arbitrary: entries) (auto split: sum.splits)

lemma generateManualRoutes_order:
  assumes "generateManualRoutes g w = Inr (manualEntries, [])"
    and "o_manualRoutes g = Some provider"
    and "provider w = Returned yielded \<or> provider w = Fulfilled yielded"
  shows "map Inr manualEntries =
     map (createManualSitemapEntry g)
       (filter (\<lambda>m. isExcludedRoute g (location m) = Inr False) yielded)"
proof -
  from assms have "tryManual g yielded = Inr manualEntries"
    by (auto simp: generateManualRoutes_def catchWarn_def split: sum.splits if_splits)
  then obtain kept where k: "filterNotExcluded g yielded = Inr kept"
    and m: "mapManual g kept = Inr manualEntries"
    by (auto simp: tryManual_def split: sum.splits)
  from filterNotExcluded_filter[OF k] mapManual_map[OF m] show ?thesis by simp
qed

text \<open>
  Claim C5: when the flattener returns \<open>routes\<close> and the manual routes resolve to
  \<open>manualEntries\<close>, the result of \<^verbatim>\<open>generateSitemapEntries\<close> is the static entries of
  the descriptors that have no earlier descriptor with the same path (one per path, in
  the order of the traversal), followed by the manual entries, with no deduplication
  between the two; and when the provider has yielded a list and nothing was logged, the
  manual entries are those of the yielded routes that are not excluded, in the yielded
  order.
\<close>

theorem dedup_then_manual_order:
  assumes "extractRoutesFromTree g routeTree '''' = Inr routes"
    and "generateManualRoutes g w = Inr (manualEntries, logged)"
  shows "generateSitemapEntries g w routeTree =
           Inr (map (createSitemapEntry g) (spec_dedup routes) @ manualEntries, logged) \<and>
         distinct (map path (spec_dedup routes)) \<and>
         path ` set (spec_dedup routes) = path ` set routes \<and>
         (\<forall>provider yielded.
            o_manualRoutes g = Some provider \<and>
            (provider w = Returned yielded \<or> provider w = Fulfilled yielded) \<and> logged = []
            \<longrightarrow> map Inr manualEntries =
                  map (createManualSitemapEntry g)
                    (filter (\<lambda>m. isExcludedRoute g (location m) = Inr False) yielded))"
proof -
  from extract_route_props[OF assms(1)] have "\<forall>r\<in>set routes. includedInSitemap r" by blast
  from uniqueRoutes_spec_dedup[OF this] assms
  have 1: "generateSitemapEntries g w routeTree =
           Inr (map (createSitemapEntry g) (spec_dedup routes) @ manualEntries, logged)"
    by (simp add: generateSitemapEntries_def)
  have 2: "map Inr manualEntries =
                  map (createManualSitemapEntry g)
                    (filter (\<lambda>m. isExcludedRoute g (location m) = Inr False) yielded)"
    if "o_manualRoutes g = Some provider"
      "provider w = Returned yielded \<or> provider w = Fulfilled yielded" "logged = []"
    for provider yielded
    using generateManualRoutes_order[OF _ that(1,2)] assms(2) that(3) by simp
  show ?thesis
  proof (intro conjI allI impI)
    show "generateSitemapEntries g w routeTree =
           Inr (map (createSitemapEntry g) (spec_dedup routes) @ manualEntries, logged)"
      by (rule 1)
    show "distinct (map path (spec_dedup routes))" by (rule distinct_spec_dedup)
    show "path ` set (spec_dedup routes) = path ` set routes" by (rule paths_spec_dedup)
    fix provider yielded
    assume "o_manualRoutes g = Some provider \<and>
            (provider w = Returned yielded \<or> provider w = Fulfilled yielded) \<and> logged = []"
    then show "map Inr manualEntries =
                  map (createManualSitemapEntry g)
                    (filter (\<lambda>m. isExcludedRoute g (location m) = Inr False) yielded)"
      using 2 by blast
  qed
qed

theorem dedup_then_manual_order_witness:
  "generateSitemapEntries exampleGenerator 0 exampleTree =
     Inr (map (createSitemapEntry exampleGenerator)
            (spec_dedup [exampleRoute ''/'', exampleRoute ''/home'', exampleRoute ''/home'',
                         exampleRoute ''/about''])
          @ [exampleEntry ''https://example.com/home'' (9 / 10)], []) \<and>
   generateSitemapEntries exampleGenerator 0 exampleTree =
     Inr ([exampleEntry ''https://example.com/'' (1 / 2),
           exampleEntry ''https://example.com/home'' (1 / 2),
           exampleEntry ''https://example.com/about'' (1 / 2),
           exampleEntry ''https://example.com/home'' (9 / 10)], []) \<and>
   distinct (map path (spec_dedup [exampleRoute ''/'', exampleRoute ''/home'',
                                   exampleRoute ''/home'', exampleRoute ''/about'']))"
  using dedup_then_manual_order[OF example_extract example_manual, of 0] example_entries[of 0]
  by blast

subsection \<open>A failing provider\<close>

text \<open>
  Claim C6: if the manual-routes provider throws, or the promise it returns is rejected,
  generation does not abort: \<^verbatim>\<open>generateManualRoutes\<close> logs one warning and returns no
  entries, and \<^verbatim>\<open>generateSitemapEntries\<close> returns all static entries.
\<close>

theorem provider_failure_recovered:
  assumes "o_manualRoutes g = Some provider"
    and "provider w = Thrown \<or> provider w = Rejected"
    and "extractRoutesFromTree g routeTree '''' = Inr routes"
  shows "generateManualRoutes g w = Inr ([], [manualWarning]) \<and>
    generateSitemapEntries g w routeTree =
      Inr (map (createSitemapEntry g) (uniqueRoutes routes), [manualWarning])"
proof -
  have m: "generateManualRoutes g w = Inr ([], [manualWarning])"
    using assms(1,2) by (auto simp: generateManualRoutes_def catchWarn_def)
  then show ?thesis using assms(3) by (simp add: generateSitemapEntries_def)
qed

theorem provider_failure_recovered_witness:
  "generateSitemapEntries (exampleGenerator\<lparr>o_manualRoutes := Some (\<lambda>w. Thrown)\<rparr>) 0 exampleTree =
     Inr (map (createSitemapEntry (exampleGenerator\<lparr>o_manualRoutes := Some (\<lambda>w. Thrown)\<rparr>))
            (uniqueRoutes [exampleRoute ''/'', exampleRoute ''/home'', exampleRoute ''/home'',
                           exampleRoute ''/about'']),
          [manualWarning])"
proof -
  let ?g = "exampleGenerator\<lparr>o_manualRoutes := Some (\<lambda>w. Thrown)\<rparr>"
  have 1: "o_manualRoutes ?g = Some (\<lambda>w. Thrown)" by simp
  have 2: "(\<lambda>w. Thrown) (0::nat) = Thrown \<or> (\<lambda>w. Thrown) (0::nat) = Rejected" by simp
  have 3: "extractRoutesFromTree ?g exampleTree '''' =
     Inr [exampleRoute ''/'', exampleRoute ''/home'', exampleRoute ''/home'', exampleRoute ''/about'']"
    by (simp add: generator_defs example_defs)
  from provider_failure_recovered[OF 1 2 3] show ?thesis by blast
qed

subsection \<open>The XML renderer\<close>

text \<open>The five replacements of \<^verbatim>\<open>escapeXml\<close>, one after the other, do what one pass over
  the text does: no replacement text contains a character that a later replacement
  looks for.\<close>

lemma escapeXml_Cons: "escapeXml (c # cs) = escapeChar c @ escapeXml cs"
  by (simp add: escapeXml_def escapeChar_def replaceAll_def)

lemma escapeXml_single_pass: "escapeXml s = concat (map escapeChar s)"
proof (induction s)
  case Nil
  show ?case by (simp add: escapeXml_def replaceAll_def)
next
  case (Cons c cs)
  then show ?case by (simp add: escapeXml_Cons)
qed

lemma appendUrl_block:
  assumes "lastmod entry \<noteq> Some ''''"
  shows "appendUrl indent newline xml entry = xml @ spec_urlBlock indent newline entry"
  using assms
  by (simp add: appendUrl_def spec_urlBlock_def Let_def escapeXml_single_pass
      truthy_changefreq_always truthy_string_def split: option.splits)

lemma foldl_appendUrl:
  assumes "\<forall>e\<in>set entries. lastmod e \<noteq> Some ''''"
  shows "foldl (appendUrl indent newline) xml entries =
     xml @ concat (map (spec_urlBlock indent newline) entries)"
  using assms
proof (induction entries arbitrary: xml)
  case Nil
  show ?case by simp
next
  case (Cons e es)
  then show ?case by (simp add: appendUrl_block)
qed

lemma entriesToXml_spec:
  assumes "\<forall>e\<in>set entries. lastmod e \<noteq> Some ''''"
  shows "entriesToXml g entries = spec_render (o_prettyPrint g = Some True) entries"
  by (simp add: entriesToXml_def spec_render_def Let_def foldl_appendUrl[OF assms])

lemma isDigit_digit: "d < 10 \<Longrightarrow> isDigit (digit d)"
  unfolding isDigit_def digit_def by (rule nth_mem) simp

lemma digits10_digits: "digits10 n \<noteq> [] \<and> (\<forall>c\<in>set (digits10 n). isDigit c)"
proof (induction n rule: digits10.induct)
  case (1 n)
  show ?case
  proof (cases "n < 10")
    case True
    then show ?thesis by (simp add: digits10.simps[of n] isDigit_digit)
  next
    case False
    with 1 have "digits10 (n div 10) \<noteq> [] \<and> (\<forall>c\<in>set (digits10 (n div 10)). isDigit c)"
      by simp
    moreover have "isDigit (digit (n mod 10))" by (simp add: isDigit_digit)
    ultimately show ?thesis using False by (simp add: digits10.simps[of n])
  qed
qed

lemma oneDecimal_shape:
  assumes "ds \<noteq> []" and "\<forall>c\<in>set ds. isDigit c" and "isDigit d"
  shows "oneDecimal (ds @ ''.'' @ [d])" and "oneDecimal (''-'' @ ds @ ''.'' @ [d])"
proof -
  from assms(1,2) have hd: "hd ds \<noteq> CHR ''-''"
    by (cases ds) (auto simp: isDigit_def)
  from assms(1) have len: "1 \<le> length ds" by (cases ds) simp_all
  from assms(1) have hd2: "hd (ds @ ''.'' @ [d]) = hd ds" by simp
  have bl: "butlast (ds @ ''.'' @ [d]) = ds @ ''.''" "butlast (ds @ ''.'') = ds"
    by (simp_all add: butlast_append)
  have la: "last (ds @ ''.'' @ [d]) = d" "last (ds @ ''.'') = CHR ''.''"
    by simp_all
  show "oneDecimal (ds @ ''.'' @ [d])"
    unfolding oneDecimal_def Let_def hd2 using hd len assms(2,3)
    by (simp only: bl la if_False simp_thms) simp
  have tl: "tl (''-'' @ ds @ ''.'' @ [d]) = ds @ ''.'' @ [d]" by simp
  have hd3: "hd (''-'' @ ds @ ''.'' @ [d]) = CHR ''-''" by simp
  have ne: "''-'' @ ds @ ''.'' @ [d] \<noteq> []" by simp
  show "oneDecimal (''-'' @ ds @ ''.'' @ [d])"
    unfolding oneDecimal_def Let_def using len assms(2,3)
    by (simp only: hd3 ne tl bl la if_True simp_thms) simp
qed

lemma oneDecimal_toFixed1: "oneDecimal (toFixed1 (Finite x))"
proof -
  define n where "n = nat \<lfloor>\<bar>x\<bar> * 10 + 1 / 2\<rfloor>"
  from digits10_digits[of "n div 10"]
  have ds: "digits10 (n div 10) \<noteq> []" "\<forall>c\<in>set (digits10 (n div 10)). isDigit c"
    by auto
  have d: "isDigit (digit (n mod 10))" by (simp add: isDigit_digit)
  from oneDecimal_shape[OF ds d] show ?thesis
    by (cases "x < 0") (simp_all add: toFixed1_nat_def n_def)
qed

text \<open>
  Claim C7: for entries whose \<^verbatim>\<open>lastmod\<close>, when present, is not the empty string (an
  ISO-8601 string never is), the renderer emits the fixed XML declaration and the
  \<^verbatim>\<open><urlset>\<close> root with the sitemap namespace, then for every entry one \<^verbatim>\<open><url>\<close>
  block with \<^verbatim>\<open><loc>\<close> (always), \<^verbatim>\<open><lastmod>\<close> (if present), \<^verbatim>\<open><changefreq>\<close> (if
  present) and \<^verbatim>\<open><priority>\<close> (if present), in that order; the text of \<^verbatim>\<open><loc>\<close> is
  escaped by the five substitutions applied in the order \<^verbatim>\<open>&\<close>, \<^verbatim>\<open><\<close>, \<^verbatim>\<open>>\<close>,
  \<^verbatim>\<open>"\<close>, \<^verbatim>\<open>'\<close>, which is one substitution per character of the text; and a finite
  priority (of magnitude below \<open>10^21\<close>) is printed with exactly one decimal digit.
\<close>

theorem xml_renderer_layout:
  assumes "\<forall>e\<in>set entries. lastmod e \<noteq> Some ''''"
  shows "entriesToXml g entries = spec_render (o_prettyPrint g = Some True) entries \<and>
         (\<forall>s. escapeXml s = concat (map escapeChar s)) \<and>
         (\<forall>x. \<bar>x\<bar> < 10 ^ 21 \<longrightarrow> oneDecimal (toFixed1 (Finite x)))"
  using entriesToXml_spec[OF assms] escapeXml_single_pass oneDecimal_toFixed1 by simp

theorem xml_renderer_layout_witness:
  "entriesToXml exampleGenerator
     [exampleEntry ''https://example.com/path?query=test&other=value'' (1 / 2)] =
     spec_render True [exampleEntry ''https://example.com/path?query=test&other=value'' (1 / 2)] \<and>
   escapeXml ''/path?query=test&other=value'' = ''/path?query=test&amp;other=value'' \<and>
   oneDecimal (toFixed1 (Finite (1 / 2))) \<and> toFixed1 (Finite (1 / 2)) = ''0.5''"
proof -
  let ?es = "[exampleEntry ''https://example.com/path?query=test&other=value'' (1 / 2)]"
  have h: "\<forall>e\<in>set ?es. lastmod e \<noteq> Some ''''" by (simp add: exampleEntry_def)
  have p: "o_prettyPrint exampleGenerator = Some True" by (simp add: exampleGenerator_def)
  have b: "\<bar>1 / 2 :: rat\<bar> < 10 ^ 21" by simp
  have e: "concat (map escapeChar ''/path?query=test&other=value'') =
      ''/path?query=test&amp;other=value''"
    by (simp add: escapeChar_def)
  have f: "toFixed1 (Finite (1 / 2)) = ''0.5''"
    by code_simp
  from xml_renderer_layout[OF h, of exampleGenerator]
  have A: "entriesToXml exampleGenerator ?es =
      spec_render (o_prettyPrint exampleGenerator = Some True) ?es"
    and B: "\<forall>s. escapeXml s = concat (map escapeChar s)"
    and C: "\<forall>x. \<bar>x\<bar> < 10 ^ 21 \<longrightarrow> oneDecimal (toFixed1 (Finite x))"
    by blast+
  from A p have "entriesToXml exampleGenerator ?es = spec_render True ?es" by simp
  moreover from B e
  have "escapeXml ''/path?query=test&other=value'' = ''/path?query=test&amp;other=value''"
    by (simp only:)
  moreover from C b have "oneDecimal (toFixed1 (Finite (1 / 2)))" by blast
  ultimately show ?thesis using f by blast
qed

subsection \<open>Determinism\<close>

lemma generateManualRoutes_env:
  assumes "case o_manualRoutes g of None \<Rightarrow> True | Some provider \<Rightarrow> provider w1 = provider w2"
  shows "generateManualRoutes g w1 = generateManualRoutes g w2"
  using assms by (simp add: generateManualRoutes_def split: option.splits)

lemma generateXmlSitemap_env:
  assumes "case o_manualRoutes g of None \<Rightarrow> True | Some provider \<Rightarrow> provider w1 = provider w2"
  shows "generateXmlSitemap g w1 routeTree = generateXmlSitemap g w2 routeTree"
  unfolding generateXmlSitemap_def generateSitemapEntries_def generateManualRoutes_env[OF assms]
  by (rule refl)

lemma constructor_now:
  "lastmod_opt options \<noteq> Absent \<Longrightarrow> constructor now1 options = constructor now2 options"
  by (cases "lastmod_opt options") (simp_all add: constructor_def)

text \<open>
  Claim C8: two runs of the XML generation, in the environments \<open>w1\<close> and \<open>w2\<close>, with
  the same route tree and with no manual-routes provider or one that yields the same in
  both runs, give the same result (the same string and the same log) when they call the
  same generator instance, and also when they call two instances built, at the times
  \<open>now1\<close> and \<open>now2\<close>, from the same options with an explicit \<^verbatim>\<open>lastmod\<close>.
\<close>

theorem xml_generation_deterministic:
  assumes "case manualRoutes options of Value provider \<Rightarrow> provider w1 = provider w2 | _ \<Rightarrow> True"
  shows "(\<forall>g. constructor now options = Inr g \<longrightarrow>
            generateXmlSitemap g w1 routeTree = generateXmlSitemap g w2 routeTree) \<and>
         (lastmod_opt options \<noteq> Absent \<longrightarrow>
            generateSitemap now1 w1 routeTree options = generateSitemap now2 w2 routeTree options)"
proof -
  have env: "generateXmlSitemap g w1 routeTree = generateXmlSitemap g w2 routeTree"
    if "constructor now' options = Inr g" for g now'
  proof -
    from that have "o_manualRoutes g = spread_nodefault (manualRoutes options)"
      by (auto simp: constructor_def split: if_splits)
    with assms
    have "case o_manualRoutes g of None \<Rightarrow> True | Some provider \<Rightarrow> provider w1 = provider w2"
      by (cases "manualRoutes options") simp_all
    from generateXmlSitemap_env[OF this] show ?thesis .
  qed
  have two: "generateSitemap now1 w1 routeTree options = generateSitemap now2 w2 routeTree options"
    if "lastmod_opt options \<noteq> Absent"
    using constructor_now[OF that, of now1 now2] env[of now2]
    by (simp add: generateSitemap_def split: sum.splits)
  from env two show ?thesis by blast
qed

theorem xml_generation_deterministic_witness:
  "generateSitemap ''2024-01-01T00:00:00.000Z'' 0 exampleTree exampleOptions =
   generateSitemap ''2025-06-30T12:00:00.000Z'' 1 exampleTree exampleOptions \<and>
   generateXmlSitemap exampleGenerator 0 exampleTree =
   generateXmlSitemap exampleGenerator 1 exampleTree"
proof -
  have h: "case manualRoutes exampleOptions of
             Value provider \<Rightarrow> provider 0 = provider 1 | _ \<Rightarrow> True"
    by (simp add: exampleOptions_def)
  have l: "lastmod_opt exampleOptions \<noteq> Absent" by (simp add: exampleOptions_def)
  from xml_generation_deterministic[OF h, of "''2024-01-01T00:00:00.000Z''" exampleTree
      "''2024-01-01T00:00:00.000Z''" "''2025-06-30T12:00:00.000Z''"]
    l example_constructor[of "''2024-01-01T00:00:00.000Z''"]
  show ?thesis by blast
qed

subsection \<open>Children of a dynamic node\<close>

lemma replaceRuns_id: "c \<notin> set s \<Longrightarrow> replaceRuns c rep s = s"
  by (induction s) auto

lemma dropWhile_notin: "c \<notin> set s \<Longrightarrow> dropWhile (\<lambda>y. y = c) s = s"
  by (cases s) auto

text \<open>
  Claim C9: a node whose raw path does not start with \<^verbatim>\<open>/\<close> and is dynamic gets the
  empty full path, whatever its parent's path is; so a child with a simple segment
  \<open>s\<close> (not empty, without \<^verbatim>\<open>/\<close>, not dynamic, not \<^verbatim>\<open>index\<close>, not \<^verbatim>\<open>__root__\<close>)
  computes its path from the empty string and, unless excluded, is emitted at
  \<^verbatim>\<open>/s\<close>: the prefix that the dynamic node's ancestors have accumulated is dropped.
\<close>

theorem dynamic_relative_parent_resets_path:
  assumes "\<not> startsWith d ''/''" and "isDynamicRoute d"
    and "s \<noteq> ''''" and "CHR ''/'' \<notin> set s" and "\<not> isDynamicRoute s"
    and "s \<noteq> ''index''" and "s \<noteq> ''__root__''"
    and "isExcludedRoute g (''/'' @ s) = Inr False" and "o_routeOptions g = Some ro"
  shows "buildFullPath parentPath d = '''' \<and>
    buildFullPath '''' s = ''/'' @ s \<and>
    extractRoutesFromTree g (TanStackRoute (Some d) [TanStackRoute (Some s) cs]) parentPath =
      (case extractChildren g cs (''/'' @ s) of
         Inl e \<Rightarrow> Inl e
       | Inr others \<Rightarrow>
           Inr (\<lparr>path = ''/'' @ s, includedInSitemap = True,
                 sitemapOptions = (case ro (''/'' @ s) of None \<Rightarrow> emptyPartial | Some p \<Rightarrow> p)\<rparr>
                # others))"
proof -
  have d: "buildFullPath parentPath d = ''''"
    using assms(1,2) by (simp add: buildFullPath_def)
  have ns: "\<not> startsWith s ''/''"
    using assms(3,4) by (cases s) (auto simp: startsWith_def)
  have s: "buildFullPath '''' s = ''/'' @ s"
    using assms(3-7) ns by (simp add: buildFullPath_def dropWhile_notin replaceRuns_id)
  have own_d: "ownRoute g d '''' = Inr []" by (simp add: ownRoute_def)
  have own_s: "ownRoute g s (''/'' @ s) =
     Inr [\<lparr>path = ''/'' @ s, includedInSitemap = True,
           sitemapOptions = (case ro (''/'' @ s) of None \<Rightarrow> emptyPartial | Some p \<Rightarrow> p)\<rparr>]"
    using assms(5,8,9) by (simp add: ownRoute_def)
  have "extractRoutesFromTree g (TanStackRoute (Some d) [TanStackRoute (Some s) cs]) parentPath =
      (case extractChildren g cs (''/'' @ s) of
         Inl e \<Rightarrow> Inl e
       | Inr others \<Rightarrow>
           Inr (\<lparr>path = ''/'' @ s, includedInSitemap = True,
                 sitemapOptions = (case ro (''/'' @ s) of None \<Rightarrow> emptyPartial | Some p \<Rightarrow> p)\<rparr>
                # others))"
    using d s own_d own_s by (simp add: Let_def split: sum.splits)
  with d s show ?thesis by blast
qed

theorem dynamic_relative_parent_resets_path_witness:
  "buildFullPath ''/blog'' ''$postId'' = '''' \<and>
   buildFullPath '''' ''edit'' = ''/edit'' \<and>
   extractRoutesFromTree aboutGenerator
     (TanStackRoute (Some ''$postId'') [TanStackRoute (Some ''edit'') []]) ''/blog'' =
   Inr [\<lparr>path = ''/edit'', includedInSitemap = True, sitemapOptions = emptyPartial\<rparr>]"
proof -
  have 1: "\<not> startsWith ''$postId'' ''/''" by (simp add: startsWith_def)
  have 2: "isDynamicRoute ''$postId''" by (simp add: isDynamicRoute_def includes_char_def)
  have 3: "''edit'' \<noteq> ''''" by simp
  have 4: "CHR ''/'' \<notin> set ''edit''" by simp
  have 5: "\<not> isDynamicRoute ''edit''" by (simp add: isDynamicRoute_def includes_char_def)
  have 6: "''edit'' \<noteq> ''index''" by simp
  have 7: "''edit'' \<noteq> ''__root__''" by simp
  have 8: "isExcludedRoute aboutGenerator (''/'' @ ''edit'') = Inr False"
    by (simp add: isExcludedRoute_def aboutGenerator_def)
  have 9: "o_routeOptions aboutGenerator = Some [''/about'' \<mapsto>
         \<lparr>p_url = None, p_lastmod = None, p_changefreq = Some Monthly,
          p_priority = Some (Finite (9 / 10))\<rparr>]"
    by (simp add: aboutGenerator_def)
  from dynamic_relative_parent_resets_path[OF 1 2 3 4 5 6 7 8 9, of "''/blog''" "[]"]
  show ?thesis by simp
qed

subsection \<open>Defined metadata\<close>

lemma js_or_defined: "\<exists>y. js_or truthy a (Some b) = Some y"
  by (simp add: js_or_def split: option.splits)

lemma createSitemapEntry_defined:
  assumes "o_lastmod g \<noteq> None" "o_defaultChangefreq g \<noteq> None" "o_defaultPriority g \<noteq> None"
  shows "lastmod (createSitemapEntry g r) \<noteq> None \<and> changefreq (createSitemapEntry g r) \<noteq> None \<and>
    priority (createSitemapEntry g r) \<noteq> None"
  using assms by (auto simp: createSitemapEntry_def js_or_defined)

lemma createManualSitemapEntry_defined:
  assumes "o_lastmod g \<noteq> None" "o_defaultChangefreq g \<noteq> None" "o_defaultPriority g \<noteq> None"
    and "createManualSitemapEntry g m = Inr e"
  shows "lastmod e \<noteq> None \<and> changefreq e \<noteq> None \<and> priority e \<noteq> None"
  using assms
  by (auto simp: createManualSitemapEntry_def js_or_defined split: sum.splits option.splits)

lemma mapManual_set:
  "mapManual g routes = Inr entries \<Longrightarrow> e \<in> set entries \<Longrightarrow>
     \<exists>m\<in>set routes. createManualSitemapEntry g m = Inr e"
  by (induction routes arbitrary: entries) (auto split: sum.splits)

lemma generateManualRoutes_set:
  assumes "generateManualRoutes g w = Inr (entries, logged)" and "e \<in> set entries"
  shows "\<exists>m. createManualSitemapEntry g m = Inr e"
proof -
  from assms obtain routes where "tryManual g routes = Inr entries"
    by (auto simp: generateManualRoutes_def catchWarn_def
        split: option.splits provider_outcome.splits sum.splits if_splits)
  then obtain kept where "mapManual g kept = Inr entries"
    by (auto simp: tryManual_def split: sum.splits)
  from mapManual_set[OF this assms(2)] show ?thesis by blast
qed

lemma spread_defined: "f \<noteq> Undefined \<Longrightarrow> \<exists>y. spread d f = Some y"
  by (cases f) simp_all

text \<open>
  Claim C10: when the options object has each of the keys \<^verbatim>\<open>defaultChangefreq\<close>,
  \<^verbatim>\<open>defaultPriority\<close> and \<^verbatim>\<open>lastmod\<close> either absent or with a value (not with
  \<^verbatim>\<open>undefined\<close>), every entry that \<^verbatim>\<open>generateSitemapEntries\<close> returns, static or
  manual, has \<^verbatim>\<open>lastmod\<close>, \<^verbatim>\<open>changefreq\<close> and \<^verbatim>\<open>priority\<close> defined; for an absent
  key the constructor has filled in \<^verbatim>\<open>weekly\<close>, \<open>0.5\<close> and the construction time.
\<close>

theorem entry_fields_defined:
  assumes "constructor now options = Inr g"
    and "defaultChangefreq options \<noteq> Undefined"
    and "defaultPriority options \<noteq> Undefined"
    and "lastmod_opt options \<noteq> Undefined"
    and "generateSitemapEntries g w routeTree = Inr (entries, logged)"
    and "e \<in> set entries"
  shows "lastmod e \<noteq> None \<and> changefreq e \<noteq> None \<and> priority e \<noteq> None \<and>
    (defaultChangefreq options = Absent \<longrightarrow> o_defaultChangefreq g = Some Weekly) \<and>
    (defaultPriority options = Absent \<longrightarrow> o_defaultPriority g = Some (Finite (1 / 2))) \<and>
    (lastmod_opt options = Absent \<longrightarrow> o_lastmod g = Some now)"
proof -
  from assms(1) have g: "o_lastmod g = spread now (lastmod_opt options)"
    "o_defaultChangefreq g = spread Weekly (defaultChangefreq options)"
    "o_defaultPriority g = spread (Finite (1 / 2)) (defaultPriority options)"
    by (auto simp: constructor_def split: if_splits)
  with assms(2-4) have d: "o_lastmod g \<noteq> None" "o_defaultChangefreq g \<noteq> None"
    "o_defaultPriority g \<noteq> None"
    by (simp_all add: spread_defined)
  from assms(5) obtain routes manualEntries
    where entries: "entries = map (createSitemapEntry g) (uniqueRoutes routes) @ manualEntries"
      and manual: "generateManualRoutes g w = Inr (manualEntries, logged)"
    by (auto simp: generateSitemapEntries_def Let_def split: sum.splits prod.splits)
  from assms(6) entries consider r where "e = createSitemapEntry g r" | "e \<in> set manualEntries"
    by auto
  then have fields: "lastmod e \<noteq> None \<and> changefreq e \<noteq> None \<and> priority e \<noteq> None"
  proof cases
    case 1
    with createSitemapEntry_defined[OF d] show ?thesis by simp
  next
    case 2
    from generateManualRoutes_set[OF manual 2] obtain m
      where "createManualSitemapEntry g m = Inr e" by blast
    from createManualSitemapEntry_defined[OF d this] show ?thesis .
  qed
  from g have "defaultChangefreq options = Absent \<longrightarrow> o_defaultChangefreq g = Some Weekly"
    and "defaultPriority options = Absent \<longrightarrow> o_defaultPriority g = Some (Finite (1 / 2))"
    and "lastmod_opt options = Absent \<longrightarrow> o_lastmod g = Some now"
    by simp_all
  with fields show ?thesis by blast
qed

theorem entry_fields_defined_witness:
  "constructor ''2024-01-01T00:00:00.000Z'' exampleOptions = Inr exampleGenerator \<and>
   lastmod (exampleEntry ''https://example.com/home'' (9 / 10)) \<noteq> None \<and>
   changefreq (exampleEntry ''https://example.com/home'' (9 / 10)) \<noteq> None \<and>
   priority (exampleEntry ''https://example.com/home'' (9 / 10)) \<noteq> None"
proof -
  have 2: "defaultChangefreq exampleOptions \<noteq> Undefined" by (simp add: exampleOptions_def)
  have 3: "defaultPriority exampleOptions \<noteq> Undefined" by (simp add: exampleOptions_def)
  have 4: "lastmod_opt exampleOptions \<noteq> Undefined" by (simp add: exampleOptions_def)
  have 6: "exampleEntry ''https://example.com/home'' (9 / 10) \<in>
     set [exampleEntry ''https://example.com/'' (1 / 2),
           exampleEntry ''https://example.com/home'' (1 / 2),
           exampleEntry ''https://example.com/about'' (1 / 2),
           exampleEntry ''https://example.com/home'' (9 / 10)]" by simp
  from entry_fields_defined[OF example_constructor 2 3 4 example_entries 6] example_constructor
  show ?thesis by blast
qed

end
